theory Spec2Isabelle
  imports Complex_Main
begin

section \<open>JavaScript values used by the visualizations\<close>

text \<open>
  The facet values, event fields and country codes handled by the two visualizations are
  JavaScript strings, or are missing (\<open>undefined\<close>, \<open>null\<close>). Other primitives (numbers,
  booleans) in these positions are outside this model. Strings are character lists.
  A call of a method on \<open>undefined\<close> or \<open>null\<close>, and a property read from \<open>undefined\<close>,
  raise a \<open>TypeError\<close>; it is the only error of the modelled code.
\<close>

datatype jsval = Undefined | Null | Str string

datatype error = TypeError

text \<open>Truthiness, as tested by \<open>&&\<close>, \<open>||\<close>, \<open>?:\<close> and \<open>if\<close>: the empty string is falsy.\<close>

definition truthy :: "jsval \<Rightarrow> bool" where
  "truthy v = (case v of Undefined \<Rightarrow> False | Null \<Rightarrow> False | Str s \<Rightarrow> s \<noteq> [])"

text \<open>The text a value contributes to a template literal.\<close>

definition template :: "jsval \<Rightarrow> string" where
  "template v = (case v of Undefined \<Rightarrow> ''undefined'' | Null \<Rightarrow> ''null'' | Str s \<Rightarrow> s)"

text \<open>
  \<open>String.prototype.toLowerCase\<close> on the ASCII letters; every other character is kept.
\<close>

definition toLowerCase_char :: "char \<Rightarrow> char" where
  "toLowerCase_char c =
     (let n = (of_char c :: nat) in if 65 \<le> n \<and> n \<le> 90 then char_of (n + 32) else c)"

definition toLowerCase :: "string \<Rightarrow> string" where
  "toLowerCase s = map toLowerCase_char s"


section \<open>Geo metadata lookup (getMapData.js)\<close>

text \<open>
  A bound of \<open>countryBounds.json\<close>. Its coordinates are finite numbers (JSON has no NaN),
  taken as reals.
\<close>

record bound =
  minLon :: real
  minLat :: real
  maxLon :: real
  maxLat :: real

text \<open>
  A record of the static country table. The bundled table \<open>data/countryData.js\<close> is not
  part of the modelled sources: its records are a payload of any type \<open>'a\<close> together with
  the \<open>bounds\<close> property that the lookup assigns (\<open>None\<close> is \<open>undefined\<close>).
\<close>

record 'a feature =
  payload :: 'a
  bounds :: "bound option"

text \<open>What a lookup hands back: the fresh object \<open>{}\<close>, or a record of the table.\<close>

datatype 'a geo = EmptyRecord | Feature "'a feature"

text \<open>
  \<open>getCountryMapData\<close>. The imported tables are parameters: \<open>countryData\<close>, a store of
  mutable records keyed by export name, and \<open>countryBounds\<close>. The function reads
  \<open>countryCode.toLowerCase()\<close> first, then tests \<open>countryCode && countryData[code]\<close>. In
  the branch taken for a known code, \<open>data\<close> is the stored record itself, so the
  assignment \<open>data.bounds = countryBounds[code]\<close> writes into the store; the result is
  returned together with the store after the call.
\<close>

definition getCountryMapData ::
  "(string \<rightharpoonup> bound) \<Rightarrow> (string \<rightharpoonup> 'a feature) \<Rightarrow> jsval
     \<Rightarrow> error + ('a geo \<times> (string \<rightharpoonup> 'a feature))" where
  "getCountryMapData countryBounds countryData countryCode =
     (case countryCode of
        Undefined \<Rightarrow> Inl TypeError
      | Null \<Rightarrow> Inl TypeError
      | Str s \<Rightarrow>
          (let code = toLowerCase s in
           case (if truthy countryCode then countryData code else None) of
             None \<Rightarrow> Inr (EmptyRecord, countryData)
           | Some stored \<Rightarrow>
               (let data = stored\<lparr>bounds := countryBounds code\<rparr>
                in Inr (Feature data, countryData(code \<mapsto> data)))))"


section \<open>Bounds reducer (KentikMapVisualization.getMapBounds)\<close>

text \<open>\<open>item.bounds\<close> of an element of the transformed data; \<open>{}\<close> has none.\<close>

definition item_bounds :: "'a geo \<Rightarrow> bound option" where
  "item_bounds item = (case item of EmptyRecord \<Rightarrow> None | Feature f \<Rightarrow> bounds f)"

text \<open>The four \<open>let\<close> variables of \<open>getMapBounds\<close>, \<open>undefined\<close> until first assigned.\<close>

record extremes =
  curMinLon :: "real option"
  curMinLat :: "real option"
  curMaxLon :: "real option"
  curMaxLat :: "real option"

definition noExtremes :: extremes where
  "noExtremes = \<lparr>curMinLon = None, curMinLat = None, curMaxLon = None, curMaxLat = None\<rparr>"

text \<open>The body of the \<open>forEach\<close> callback.\<close>

definition foldBound :: "extremes \<Rightarrow> bound \<Rightarrow> extremes" where
  "foldBound e b =
     \<lparr>curMinLon = Some (case curMinLon e of None \<Rightarrow> minLon b | Some m \<Rightarrow> min m (minLon b)),
      curMinLat = Some (case curMinLat e of None \<Rightarrow> minLat b | Some m \<Rightarrow> min m (minLat b)),
      curMaxLon = Some (case curMaxLon e of None \<Rightarrow> maxLon b | Some m \<Rightarrow> max m (maxLon b)),
      curMaxLat = Some (case curMaxLat e of None \<Rightarrow> maxLat b | Some m \<Rightarrow> max m (maxLat b))\<rparr>"

text \<open>\<open>data.filter(item => !!item.bounds).map(item => item.bounds)\<close>.\<close>

definition carriedBounds :: "'a geo list \<Rightarrow> bound list" where
  "carriedBounds data =
     map (\<lambda>item. the (item_bounds item)) (filter (\<lambda>item. item_bounds item \<noteq> None) data)"

text \<open>
  \<open>getMapBounds\<close>. The result \<open>None\<close> is \<open>undefined\<close>; the \<open>LatLngBounds\<close> built from the
  two corners is the bound with those four coordinates. The last case is never reached:
  after a non-empty \<open>forEach\<close> all four variables are assigned (lemma
  \<open>foldl_foldBound_assigned\<close>).
\<close>

definition getMapBounds :: "'a geo list \<Rightarrow> bound option" where
  "getMapBounds data =
     (let bs = carriedBounds data in
      if length bs = 0 then None
      else
        (let e = foldl foldBound noExtremes bs in
         case (curMinLon e, curMinLat e, curMaxLon e, curMaxLat e) of
           (Some loLon, Some loLat, Some hiLon, Some hiLat) \<Rightarrow>
             if hiLat = loLat \<and> hiLon = loLon
             then Some \<lparr>minLon = loLon - 1, minLat = loLat - 1,
                        maxLon = hiLon + 1, maxLat = hiLat + 1\<rparr>
             else Some \<lparr>minLon = loLon, minLat = loLat, maxLon = hiLon, maxLat = hiLat\<rparr>
         | _ \<Rightarrow> None))"


section \<open>Geo data transformer (KentikMapVisualization.transformData)\<close>

text \<open>
  A row of a query result: \<open>metadata.groups\<close>, a list of \<open>{type, name, value}\<close>, and
  \<open>data\<close>. The elements of \<open>data\<close> are samples \<open>{x, y}\<close> for the map and for the Sankey
  diagram in facet mode, and raw events in event mode. Numbers that are only added and
  multiplied are of any type \<open>'n\<close> with \<open>0\<close>, \<open>+\<close> and \<open>*\<close>; no law of arithmetic is
  assumed of it, so the sums below are the ones the code accumulates, in its order.
\<close>

record group =
  group_type :: string
  group_name :: string
  group_value :: jsval

record 'n sample =
  sample_x :: 'n
  sample_y :: 'n

record 'd row =
  row_groups :: "group list"
  row_data :: "'d list"

text \<open>An entry of \<open>dataMap\<close>: \<open>{...item, index, sum}\<close>.\<close>

record 'n aggregate =
  agg_item :: "'n sample row"
  agg_index :: nat
  agg_sum :: 'n

text \<open>
  The state that \<open>transformData\<close> reads and writes: the instance field \<open>dataMap\<close> (own
  properties only; keys are assumed not to be property names of \<open>Object.prototype\<close>) and
  the store of static country records that \<open>getCountryMapData\<close> writes to.
\<close>

record ('a, 'n) world =
  dataMap :: "string \<rightharpoonup> 'n aggregate"
  countryData :: "string \<rightharpoonup> 'a feature"

text \<open>\<open>countryGroup?.value\<close> for the first facet group named \<open>country\<close>.\<close>

definition countryOf :: "'d row \<Rightarrow> jsval" where
  "countryOf item =
     (case find (\<lambda>g. group_type g = ''facet'' \<and> group_name g = ''country'') (row_groups item) of
        None \<Rightarrow> Undefined
      | Some countryGroup \<Rightarrow> group_value countryGroup)"

text \<open>The callback of \<open>data.map\<close>, for the row \<open>item\<close> at position \<open>index\<close>.\<close>

definition transformItem ::
  "(string \<rightharpoonup> bound) \<Rightarrow> ('a, 'n::{zero,plus}) world \<Rightarrow> 'n sample row \<Rightarrow> nat
     \<Rightarrow> error + ('a geo \<times> ('a, 'n) world)" where
  "transformItem countryBounds w item index =
     (let country = countryOf item in
      case (if truthy country then getCountryMapData countryBounds (countryData w) country
            else Inr (EmptyRecord, countryData w)) of
        Inl err \<Rightarrow> Inl err
      | Inr (found, table) \<Rightarrow>
          Inr (found,
               \<lparr>dataMap =
                  (if truthy country
                   then (dataMap w)(template country \<mapsto>
                          \<lparr>agg_item = item, agg_index = index,
                           agg_sum = foldl (\<lambda>acc dataItem. acc + sample_y dataItem) 0 (row_data item)\<rparr>)
                   else dataMap w),
                countryData = table\<rparr>))"

fun mapItems ::
  "(string \<rightharpoonup> bound) \<Rightarrow> ('a, 'n::{zero,plus}) world \<Rightarrow> nat \<Rightarrow> 'n sample row list
     \<Rightarrow> error + ('a geo list \<times> ('a, 'n) world)" where
  "mapItems countryBounds w index [] = Inr ([], w)"
| "mapItems countryBounds w index (item # rest) =
     (case transformItem countryBounds w item index of
        Inl err \<Rightarrow> Inl err
      | Inr (found, w1) \<Rightarrow>
          (case mapItems countryBounds w1 (Suc index) rest of
             Inl err \<Rightarrow> Inl err
           | Inr (founds, w2) \<Rightarrow> Inr (found # founds, w2)))"

definition transformData ::
  "(string \<rightharpoonup> bound) \<Rightarrow> ('a, 'n::{zero,plus}) world \<Rightarrow> 'n sample row list
     \<Rightarrow> error + ('a geo list \<times> ('a, 'n) world)" where
  "transformData countryBounds w data = mapItems countryBounds w 0 data"

text \<open>
  \<open>getDataForCountry\<close>: \<open>this.dataMap[country] || {}\<close>. The stored aggregates are objects,
  hence truthy; \<open>None\<close> is the empty record \<open>{}\<close>.
\<close>

definition getDataForCountry :: "('a, 'n) world \<Rightarrow> string \<Rightarrow> 'n aggregate option" where
  "getDataForCountry w country = dataMap w country"

text \<open>A component instance starts with \<open>dataMap = {}\<close>.\<close>

definition newInstance :: "(string \<rightharpoonup> 'a feature) \<Rightarrow> ('a, 'n) world" where
  "newInstance table = \<lparr>dataMap = Map.empty, countryData = table\<rparr>"


section \<open>Flow graph transformer (SankeyVisualization)\<close>

record node =
  node_id :: string
  node_name :: string

record 'n link =
  link_source :: string
  link_target :: string
  link_value :: 'n

record 'n graph =
  nodes :: "node list"
  links :: "'n link list"

subsection \<open>Facet mode (transformFacetData)\<close>

text \<open>The node identity \<open>`${facet.value}||${facet.name}`\<close>.\<close>

definition facetId :: "group \<Rightarrow> string" where
  "facetId facet = template (group_value facet) @ ''||'' @ group_name facet"

definition facetsOf :: "'d row \<Rightarrow> group list" where
  "facetsOf item = filter (\<lambda>group. group_type group = ''facet'') (row_groups item)"

text \<open>\<open>Set.prototype.add\<close> on a set that is read back in insertion order.\<close>

definition setAdd :: "string list \<Rightarrow> string \<Rightarrow> string list" where
  "setAdd s v = (if v \<in> set s then s else s @ [v])"

text \<open>
  The body of \<open>rawData.forEach\<close>: \<open>facets[0].value\<close>, \<open>facets[1].value\<close> and
  \<open>item.data[0].y\<close> raise a \<open>TypeError\<close> when the row has fewer than two facet groups or
  no sample.
\<close>

definition facetStep ::
  "string list \<times> 'n link list \<Rightarrow> 'n sample row \<Rightarrow> error + (string list \<times> 'n link list)" where
  "facetStep acc item =
     (case facetsOf item of
        f0 # f1 # _ \<Rightarrow>
          (let facet0 = facetId f0; facet1 = facetId f1 in
           case row_data item of
             [] \<Rightarrow> Inl TypeError
           | d # _ \<Rightarrow>
               Inr (setAdd (setAdd (fst acc) facet0) facet1,
                    snd acc @ [\<lparr>link_source = facet0, link_target = facet1,
                                link_value = sample_y d\<rparr>]))
      | _ \<Rightarrow> Inl TypeError)"

fun facetLoop ::
  "string list \<times> 'n link list \<Rightarrow> 'n sample row list \<Rightarrow> error + (string list \<times> 'n link list)" where
  "facetLoop acc [] = Inr acc"
| "facetLoop acc (item # rest) =
     (case facetStep acc item of Inl err \<Rightarrow> Inl err | Inr acc1 \<Rightarrow> facetLoop acc1 rest)"

text \<open>\<open>node.split('||')[0]\<close>: the text before the first \<open>||\<close>, or all of it.\<close>

fun beforeBars :: "string \<Rightarrow> string" where
  "beforeBars (c # d # cs) =
     (if c = CHR ''|'' \<and> d = CHR ''|'' then [] else c # beforeBars (d # cs))"
| "beforeBars cs = cs"

definition transformFacetData :: "'n sample row list \<Rightarrow> error + 'n graph" where
  "transformFacetData rawData =
     (case facetLoop ([], []) rawData of
        Inl err \<Rightarrow> Inl err
      | Inr (nodeSet, linkList) \<Rightarrow>
          Inr \<lparr>nodes = map (\<lambda>node. \<lparr>node_id = node, node_name = beforeBars node\<rparr>) nodeSet,
               links = linkList\<rparr>)"

subsection \<open>Event mode (transformEventData)\<close>

text \<open>
  A raw event: its fields other than the two numeric ones as a property list, read by
  name with \<open>item[dimension]\<close> (\<open>undefined\<close> when absent).
\<close>

record 'n event =
  event_fields :: "(string \<times> jsval) list"
  in_bytes :: 'n
  sample_rate :: 'n

definition getField :: "'n event \<Rightarrow> string \<Rightarrow> jsval" where
  "getField item k = (case map_of (event_fields item) k of None \<Rightarrow> Undefined | Some v \<Rightarrow> v)"

definition leftKey :: "string \<Rightarrow> 'n event \<Rightarrow> string" where
  "leftKey dimensionLeft item = template (getField item dimensionLeft) @ ''-left''"

definition rightKey :: "string \<Rightarrow> 'n event \<Rightarrow> string" where
  "rightKey dimensionRight item = template (getField item dimensionRight) @ ''-right''"

definition linkKey :: "string \<Rightarrow> string \<Rightarrow> 'n event \<Rightarrow> string" where
  "linkKey dimensionLeft dimensionRight item =
     template (getField item dimensionLeft) @ ''-'' @ template (getField item dimensionRight)"

text \<open>\<open>item[dimension] || '--'\<close>.\<close>

definition nameOr :: "jsval \<Rightarrow> string" where
  "nameOr v = (if truthy v then template v else ''--'')"

text \<open>
  The objects \<open>nodes\<close> and \<open>links\<close> are property lists in insertion order, the order in
  which \<open>Object.values\<close> reads them (every key holds a \<open>-\<close>, so none is an array index).
  \<open>obj[k] = obj[k] || v\<close> keeps a present property, whose value is an object, and appends
  an absent one.
\<close>

definition orAssign :: "string \<Rightarrow> 'v \<Rightarrow> (string \<times> 'v) list \<Rightarrow> (string \<times> 'v) list" where
  "orAssign k v obj = (if k \<in> fst ` set obj then obj else obj @ [(k, v)])"

text \<open>\<open>links[linkKey].value += amount\<close>.\<close>

definition addValue ::
  "string \<Rightarrow> 'n::plus \<Rightarrow> (string \<times> 'n link) list \<Rightarrow> (string \<times> 'n link) list" where
  "addValue k amount obj =
     map (\<lambda>(k', l). if k' = k then (k', l\<lparr>link_value := link_value l + amount\<rparr>) else (k', l)) obj"

text \<open>The body of \<open>rawData[0].data.forEach\<close>.\<close>

definition eventStep ::
  "string \<Rightarrow> string \<Rightarrow> (string \<times> node) list \<times> (string \<times> 'n::{zero,plus,times} link) list
     \<Rightarrow> 'n event \<Rightarrow> (string \<times> node) list \<times> (string \<times> 'n link) list" where
  "eventStep dimensionLeft dimensionRight acc item =
     (let lk = leftKey dimensionLeft item;
          rk = rightKey dimensionRight item;
          key = linkKey dimensionLeft dimensionRight item;
          nodes1 = orAssign lk \<lparr>node_id = lk, node_name = nameOr (getField item dimensionLeft)\<rparr>
                     (fst acc);
          nodes2 = orAssign rk \<lparr>node_id = rk, node_name = nameOr (getField item dimensionRight)\<rparr>
                     nodes1;
          links1 = orAssign key \<lparr>link_source = lk, link_target = rk, link_value = 0\<rparr> (snd acc)
      in (nodes2, addValue key (in_bytes item * sample_rate item) links1))"

text \<open>The two objects when the loop over the events has ended.\<close>

definition eventObjects ::
  "string \<Rightarrow> string \<Rightarrow> 'n::{zero,plus,times} event list
     \<Rightarrow> (string \<times> node) list \<times> (string \<times> 'n link) list" where
  "eventObjects dimensionLeft dimensionRight events =
     foldl (eventStep dimensionLeft dimensionRight) ([], []) events"

text \<open>\<open>transformEventData\<close>; \<open>rawData[0].data\<close> raises a \<open>TypeError\<close> on an empty batch.\<close>

definition transformEventData ::
  "string \<Rightarrow> string \<Rightarrow> 'n::{zero,plus,times} event row list \<Rightarrow> error + 'n graph" where
  "transformEventData dimensionLeft dimensionRight rawData =
     (case rawData of
        [] \<Rightarrow> Inl TypeError
      | first # _ \<Rightarrow>
          (let objs = eventObjects dimensionLeft dimensionRight (row_data first)
           in Inr \<lparr>nodes = map snd (fst objs), links = map snd (snd objs)\<rparr>))"

section \<open>Magnitude scaler (greekPrefixing.js)\<close>

text \<open>
  The numbers of the scaler are divided, rooted and compared, so they are reals extended
  by \<open>NaN\<close>. The arithmetic is exact: the rounding of IEEE doubles and the infinities are
  not modelled. Every operation yields \<open>NaN\<close> on a \<open>NaN\<close> operand, and every comparison
  with \<open>NaN\<close> is false.
\<close>

datatype jsnum = NaN | Num real

definition jsAdd :: "jsnum \<Rightarrow> jsnum \<Rightarrow> jsnum" where
  "jsAdd a b = (case (a, b) of (Num x, Num y) \<Rightarrow> Num (x + y) | _ \<Rightarrow> NaN)"

definition jsSub :: "jsnum \<Rightarrow> jsnum \<Rightarrow> jsnum" where
  "jsSub a b = (case (a, b) of (Num x, Num y) \<Rightarrow> Num (x - y) | _ \<Rightarrow> NaN)"

definition jsMul :: "jsnum \<Rightarrow> jsnum \<Rightarrow> jsnum" where
  "jsMul a b = (case (a, b) of (Num x, Num y) \<Rightarrow> Num (x * y) | _ \<Rightarrow> NaN)"

text \<open>
  Division, for the divisors of this module: the length of an array, where \<open>0 / 0\<close> is
  \<open>NaN\<close> (the dividend is the sum of an empty array then), and the non-zero magnitudes.
\<close>

definition jsDiv :: "jsnum \<Rightarrow> real \<Rightarrow> jsnum" where
  "jsDiv a d = (case a of Num x \<Rightarrow> (if d = 0 then NaN else Num (x / d)) | NaN \<Rightarrow> NaN)"

definition jsSqrt :: "jsnum \<Rightarrow> jsnum" where
  "jsSqrt a = (case a of Num x \<Rightarrow> (if x < 0 then NaN else Num (sqrt x)) | NaN \<Rightarrow> NaN)"

definition jsGreater :: "jsnum \<Rightarrow> real \<Rightarrow> bool" where
  "jsGreater a b = (case a of Num x \<Rightarrow> x > b | NaN \<Rightarrow> False)"

text \<open>
  \<open>calculateStdDeviation\<close>, returning \<open>(avg, stdDev)\<close>. An element \<open>None\<close> of \<open>data\<close> is
  \<open>undefined\<close>.
\<close>

definition calculateStdDeviation :: "jsnum option list \<Rightarrow> jsnum \<times> jsnum" where
  "calculateStdDeviation data =
     (let filteredData = map the (filter (\<lambda>datum. datum \<noteq> None) data);
          avg = jsDiv (foldl jsAdd (Num 0) filteredData) (real (length filteredData));
          diffs = map (\<lambda>row. jsMul (jsSub row avg) (jsSub row avg)) filteredData;
          stdDev = jsSqrt (jsDiv (foldl jsAdd (Num 0) diffs) (real (length diffs)))
      in (avg, stdDev))"

definition nStdDeviations :: "jsnum option list \<Rightarrow> real \<Rightarrow> jsnum" where
  "nStdDeviations data n =
     (let (avg, stdDev) = calculateStdDeviation data in jsAdd avg (jsMul stdDev (Num n)))"

record prefix =
  prefix_value :: string
  magnitude :: real

definition PREFIXES :: "prefix list" where
  "PREFIXES =
     [\<lparr>prefix_value = ''P'', magnitude = 10 ^ 15\<rparr>,
      \<lparr>prefix_value = ''T'', magnitude = 10 ^ 12\<rparr>,
      \<lparr>prefix_value = ''G'', magnitude = 10 ^ 9\<rparr>,
      \<lparr>prefix_value = ''M'', magnitude = 10 ^ 6\<rparr>,
      \<lparr>prefix_value = ''K'', magnitude = 10 ^ 3\<rparr>]"

text \<open>\<open>greekPrefix\<close>; an omitted or \<open>undefined\<close> \<open>scaleMax\<close> (\<open>None\<close>) takes the default 5.\<close>

definition greekPrefix :: "jsnum option list \<Rightarrow> real option \<Rightarrow> string" where
  "greekPrefix data scaleMax =
     (let limit = (case scaleMax of None \<Rightarrow> 5 | Some m \<Rightarrow> m);
          twoStdDeviations = nStdDeviations data 2
      in case find (\<lambda>pf. jsGreater (jsDiv twoStdDeviations (magnitude pf)) limit) PREFIXES of
           None \<Rightarrow> []
         | Some pf \<Rightarrow> prefix_value pf)"

definition adjustByGreekPrefix :: "jsnum \<Rightarrow> string \<Rightarrow> jsnum" where
  "adjustByGreekPrefix v p =
     (case find (\<lambda>pf. prefix_value pf = p) PREFIXES of
        None \<Rightarrow> v
      | Some prefixFound \<Rightarrow> jsDiv v (magnitude prefixFound))"

text \<open>The decimal digits of a natural number.\<close>

fun digitsOf :: "nat \<Rightarrow> string" where
  "digitsOf n =
     (if n < 10 then [''0123456789'' ! n]
      else digitsOf (n div 10) @ [''0123456789'' ! (n mod 10)])"

text \<open>
  \<open>Number.prototype.toFixed()\<close> with no digits after the point: the nearest integer, the
  larger one on a tie, of the absolute value, after the sign. From \<open>10^21\<close> on JavaScript
  prints an exponent instead; that range is left out (\<open>None\<close>).
\<close>

definition toFixed :: "jsnum \<Rightarrow> string option" where
  "toFixed v =
     (case v of
        NaN \<Rightarrow> Some ''NaN''
      | Num x \<Rightarrow>
          if \<bar>x\<bar> \<ge> 10 ^ 21 then None
          else Some ((if x < 0 then ''-'' else []) @ digitsOf (nat \<lfloor>\<bar>x\<bar> + 1 / 2\<rfloor>)))"

text \<open>
  The argument of \<open>formatBytesGreek\<close>: one value, or an array of values. \<open>parseFloat\<close> of
  a number is that number, and of \<open>undefined\<close> is \<open>NaN\<close>.
\<close>

datatype bytes = Single "jsnum option" | Many "jsnum option list"

definition parseFloat :: "jsnum option \<Rightarrow> jsnum" where
  "parseFloat v = (case v of None \<Rightarrow> NaN | Some n \<Rightarrow> n)"

text \<open>\<open>formatBytesGreek\<close>; an omitted \<open>suffix\<close> (\<open>None\<close>) takes the default \<open>B\<close>.\<close>

definition formatBytesGreek :: "bytes \<Rightarrow> string option \<Rightarrow> real option \<Rightarrow> string option" where
  "formatBytesGreek v suffix scaleMax =
     (let p = greekPrefix (case v of Many vs \<Rightarrow> vs | Single x \<Rightarrow> [x]) scaleMax;
          total = (case v of
                     Many vs \<Rightarrow> foldl (\<lambda>sum row. jsAdd sum (parseFloat row)) (Num 0) vs
                   | Single x \<Rightarrow> parseFloat x)
      in map_option (\<lambda>digits. digits @ '' '' @ p @ (case suffix of None \<Rightarrow> ''B'' | Some u \<Rightarrow> u))
           (toFixed (adjustByGreekPrefix total p)))"


section \<open>Properties of the bounds reducer\<close>

text \<open>
  After a non-empty loop the four variables hold the element-wise minima and maxima.
\<close>

lemma foldl_foldBound_extremes:
  "bs \<noteq> [] \<Longrightarrow>
   foldl foldBound noExtremes bs =
     \<lparr>curMinLon = Some (Min (minLon ` set bs)), curMinLat = Some (Min (minLat ` set bs)),
      curMaxLon = Some (Max (maxLon ` set bs)), curMaxLat = Some (Max (maxLat ` set bs))\<rparr>"
proof (induction bs rule: rev_nonempty_induct)
  case (single b)
  show ?case by (simp add: foldBound_def noExtremes_def)
next
  case (snoc b bs)
  have fin: "finite (minLon ` set bs)" "finite (minLat ` set bs)"
            "finite (maxLon ` set bs)" "finite (maxLat ` set bs)" by simp_all
  have ne: "minLon ` set bs \<noteq> {}" "minLat ` set bs \<noteq> {}"
           "maxLon ` set bs \<noteq> {}" "maxLat ` set bs \<noteq> {}" using snoc.hyps by simp_all
  show ?case
    using snoc.IH fin ne
    by (simp add: foldBound_def Min_insert Max_insert min.commute max.commute)
qed

lemma foldl_foldBound_assigned:
  "bs \<noteq> [] \<Longrightarrow> \<exists>a b c d. foldl foldBound noExtremes bs =
      \<lparr>curMinLon = Some a, curMinLat = Some b, curMaxLon = Some c, curMaxLat = Some d\<rparr>"
  by (simp add: foldl_foldBound_extremes)

lemma getMapBounds_folded:
  assumes "carriedBounds data \<noteq> []"
  shows "getMapBounds data =
     (let bs = carriedBounds data;
          loLon = Min (minLon ` set bs); loLat = Min (minLat ` set bs);
          hiLon = Max (maxLon ` set bs); hiLat = Max (maxLat ` set bs)
      in if hiLat = loLat \<and> hiLon = loLon
         then Some \<lparr>minLon = loLon - 1, minLat = loLat - 1, maxLon = hiLon + 1, maxLat = hiLat + 1\<rparr>
         else Some \<lparr>minLon = loLon, minLat = loLat, maxLon = hiLon, maxLat = hiLat\<rparr>)"
  using assms by (simp add: getMapBounds_def foldl_foldBound_extremes Let_def)

lemma getMapBounds_none: "carriedBounds data = [] \<Longrightarrow> getMapBounds data = None"
  by (simp add: getMapBounds_def)

lemma carriedBounds_set: "set (carriedBounds data) = {b. \<exists>item\<in>set data. item_bounds item = Some b}"
  by (force simp: carriedBounds_def image_iff)

text \<open>
  Claim C7. When at least one feature carries a bound, \<open>getMapBounds\<close> returns a bound
  that encloses every bound carried by a feature: its minima are at most, and its maxima
  at least, those of each input bound. When no feature carries a bound it returns
  \<open>undefined\<close>.
\<close>

theorem getMapBounds_encloses:
  "((\<exists>item\<in>set data. item_bounds item \<noteq> None) \<longrightarrow>
      (\<exists>r. getMapBounds data = Some r \<and>
           (\<forall>item\<in>set data. \<forall>b. item_bounds item = Some b \<longrightarrow>
              minLon r \<le> minLon b \<and> minLat r \<le> minLat b \<and>
              maxLon r \<ge> maxLon b \<and> maxLat r \<ge> maxLat b))) \<and>
   ((\<forall>item\<in>set data. item_bounds item = None) \<longrightarrow> getMapBounds data = None)"
proof (intro conjI impI)
  assume some: "\<exists>item\<in>set data. item_bounds item \<noteq> None"
  let ?bs = "carriedBounds data"
  from some have ne: "?bs \<noteq> []"
    by (auto simp: carriedBounds_def filter_empty_conv)
  have lo: "Min (minLon ` set ?bs) \<le> minLon b" "Min (minLat ` set ?bs) \<le> minLat b"
    and hi: "maxLon b \<le> Max (maxLon ` set ?bs)" "maxLat b \<le> Max (maxLat ` set ?bs)"
    if "b \<in> set ?bs" for b
    using that by simp_all
  obtain r where r: "getMapBounds data = Some r"
    using getMapBounds_folded[OF ne] by (auto simp: Let_def split: if_splits)
  have "minLon r \<le> minLon b \<and> minLat r \<le> minLat b \<and> maxLon r \<ge> maxLon b \<and> maxLat r \<ge> maxLat b"
    if "item \<in> set data" "item_bounds item = Some b" for item b
  proof -
    from that have mem: "b \<in> set ?bs" by (auto simp: carriedBounds_set)
    show ?thesis
      using r getMapBounds_folded[OF ne] lo[OF mem] hi[OF mem]
      by (auto simp: Let_def split: if_splits)
  qed
  with r show "\<exists>r. getMapBounds data = Some r \<and>
           (\<forall>item\<in>set data. \<forall>b. item_bounds item = Some b \<longrightarrow>
              minLon r \<le> minLon b \<and> minLat r \<le> minLat b \<and>
              maxLon r \<ge> maxLon b \<and> maxLat r \<ge> maxLat b)" by blast
next
  assume "\<forall>item\<in>set data. item_bounds item = None"
  then have "carriedBounds data = []" by (simp add: carriedBounds_def filter_empty_conv)
  then show "getMapBounds data = None" by (rule getMapBounds_none)
qed

theorem getMapBounds_encloses_witness:
  "(\<exists>item\<in>set [EmptyRecord, Feature \<lparr>payload = (), bounds = Some \<lparr>minLon = -3, minLat = 1, maxLon = 4, maxLat = 9\<rparr>\<rparr>,
                   Feature \<lparr>payload = (), bounds = Some \<lparr>minLon = 2, minLat = 5, maxLon = 7, maxLat = 6\<rparr>\<rparr>].
      item_bounds item \<noteq> None) \<and>
   getMapBounds [EmptyRecord, Feature \<lparr>payload = (), bounds = Some \<lparr>minLon = -3, minLat = 1, maxLon = 4, maxLat = 9\<rparr>\<rparr>,
                 Feature \<lparr>payload = (), bounds = Some \<lparr>minLon = 2, minLat = 5, maxLon = 7, maxLat = 6\<rparr>\<rparr>]
     = Some \<lparr>minLon = -3, minLat = 1, maxLon = 7, maxLat = 9\<rparr> \<and>
   item_bounds (EmptyRecord :: unit geo) = None \<and>
   getMapBounds [EmptyRecord :: unit geo, EmptyRecord] = None"
  using getMapBounds_encloses [of "[EmptyRecord, Feature \<lparr>payload = (), bounds = Some \<lparr>minLon = -3, minLat = 1, maxLon = 4, maxLat = 9\<rparr>\<rparr>,
                   Feature \<lparr>payload = (), bounds = Some \<lparr>minLon = 2, minLat = 5, maxLon = 7, maxLat = 6\<rparr>\<rparr>]"]
        getMapBounds_encloses [of "[EmptyRecord :: unit geo, EmptyRecord]"]
  by (simp add: item_bounds_def getMapBounds_def carriedBounds_def foldBound_def noExtremes_def)

text \<open>
  Claim C8. On the bounds carried by the features, the result is the folded bound
  widened by 1 on every side exactly when \<open>maxLat = minLat\<close> and \<open>maxLon = minLon\<close>
  both hold of the folded bound, and the folded bound itself otherwise. The single bound
  with all four coordinates 5 gives the coordinates 4, 4, 6, 6; a single bound that is
  not collapsed on both axes is returned as it is.
\<close>

theorem getMapBounds_degenerate:
  "(carriedBounds data \<noteq> [] \<longrightarrow>
      getMapBounds data =
        (let bs = carriedBounds data;
             loLon = Min (minLon ` set bs); loLat = Min (minLat ` set bs);
             hiLon = Max (maxLon ` set bs); hiLat = Max (maxLat ` set bs)
         in if hiLat = loLat \<and> hiLon = loLon
            then Some \<lparr>minLon = loLon - 1, minLat = loLat - 1,
                       maxLon = hiLon + 1, maxLat = hiLat + 1\<rparr>
            else Some \<lparr>minLon = loLon, minLat = loLat, maxLon = hiLon, maxLat = hiLat\<rparr>)) \<and>
   getMapBounds [Feature \<lparr>payload = p, bounds = Some \<lparr>minLon = 5, minLat = 5, maxLon = 5, maxLat = 5\<rparr>\<rparr>]
     = Some \<lparr>minLon = 4, minLat = 4, maxLon = 6, maxLat = 6\<rparr> \<and>
   (\<forall>b. maxLat b \<noteq> minLat b \<or> maxLon b \<noteq> minLon b \<longrightarrow>
        getMapBounds [Feature \<lparr>payload = p, bounds = Some b\<rparr>] = Some b)"
proof (intro conjI impI allI)
  assume "carriedBounds data \<noteq> []"
  then show "getMapBounds data =
        (let bs = carriedBounds data;
             loLon = Min (minLon ` set bs); loLat = Min (minLat ` set bs);
             hiLon = Max (maxLon ` set bs); hiLat = Max (maxLat ` set bs)
         in if hiLat = loLat \<and> hiLon = loLon
            then Some \<lparr>minLon = loLon - 1, minLat = loLat - 1,
                       maxLon = hiLon + 1, maxLat = hiLat + 1\<rparr>
            else Some \<lparr>minLon = loLon, minLat = loLat, maxLon = hiLon, maxLat = hiLat\<rparr>)"
    by (rule getMapBounds_folded)
next
  show "getMapBounds [Feature \<lparr>payload = p, bounds = Some \<lparr>minLon = 5, minLat = 5, maxLon = 5, maxLat = 5\<rparr>\<rparr>]
     = Some \<lparr>minLon = 4, minLat = 4, maxLon = 6, maxLat = 6\<rparr>"
    by (simp add: item_bounds_def getMapBounds_def carriedBounds_def foldBound_def noExtremes_def)
next
  fix b :: bound
  assume "maxLat b \<noteq> minLat b \<or> maxLon b \<noteq> minLon b"
  then show "getMapBounds [Feature \<lparr>payload = p, bounds = Some b\<rparr>] = Some b"
    by (auto simp: item_bounds_def getMapBounds_def carriedBounds_def foldBound_def noExtremes_def)
qed

theorem getMapBounds_degenerate_witness:
  "carriedBounds [Feature \<lparr>payload = (), bounds = Some \<lparr>minLon = 2, minLat = 3, maxLon = 2, maxLat = 3\<rparr>\<rparr>,
                  EmptyRecord,
                  Feature \<lparr>payload = (), bounds = Some \<lparr>minLon = 2, minLat = 3, maxLon = 2, maxLat = 3\<rparr>\<rparr>] \<noteq> [] \<and>
   getMapBounds [Feature \<lparr>payload = (), bounds = Some \<lparr>minLon = 2, minLat = 3, maxLon = 2, maxLat = 3\<rparr>\<rparr>,
                 EmptyRecord,
                 Feature \<lparr>payload = (), bounds = Some \<lparr>minLon = 2, minLat = 3, maxLon = 2, maxLat = 3\<rparr>\<rparr>]
     = Some \<lparr>minLon = 1, minLat = 2, maxLon = 3, maxLat = 4\<rparr> \<and>
   maxLat \<lparr>minLon = 1, minLat = 5, maxLon = 3, maxLat = 5\<rparr> = minLat \<lparr>minLon = 1, minLat = 5, maxLon = 3, maxLat = 5\<rparr> \<and>
   maxLon \<lparr>minLon = 1, minLat = 5, maxLon = 3, maxLat = 5\<rparr> \<noteq> minLon \<lparr>minLon = 1, minLat = 5, maxLon = 3, maxLat = 5\<rparr> \<and>
   getMapBounds [Feature \<lparr>payload = (), bounds = Some \<lparr>minLon = 1, minLat = 5, maxLon = 3, maxLat = 5\<rparr>\<rparr>]
     = Some \<lparr>minLon = 1, minLat = 5, maxLon = 3, maxLat = 5\<rparr>"
  using getMapBounds_degenerate [of "[Feature \<lparr>payload = (), bounds = Some \<lparr>minLon = 2, minLat = 3, maxLon = 2, maxLat = 3\<rparr>\<rparr>,
                  EmptyRecord,
                  Feature \<lparr>payload = (), bounds = Some \<lparr>minLon = 2, minLat = 3, maxLon = 2, maxLat = 3\<rparr>\<rparr>]" "()"]
  by (simp add: item_bounds_def carriedBounds_def)


section \<open>Properties of the geo metadata lookup\<close>

text \<open>
  On a string the lookup never raises: the empty string and a code that is not in the
  table give the empty record and leave the store as it is; a known code gives the
  stored record with its \<open>bounds\<close> assigned.
\<close>

lemma getCountryMapData_string:
  "s = [] \<or> table (toLowerCase s) = None \<Longrightarrow>
   getCountryMapData boundsOf table (Str s) = Inr (EmptyRecord, table)"
  by (auto simp: getCountryMapData_def truthy_def Let_def)

lemma getCountryMapData_known:
  "s \<noteq> [] \<Longrightarrow> table (toLowerCase s) = Some stored \<Longrightarrow>
   getCountryMapData boundsOf table (Str s) =
     Inr (Feature (stored\<lparr>bounds := boundsOf (toLowerCase s)\<rparr>),
          table(toLowerCase s \<mapsto> stored\<lparr>bounds := boundsOf (toLowerCase s)\<rparr>))"
  by (simp add: getCountryMapData_def truthy_def Let_def)

lemma toLowerCase_US: "toLowerCase ''US'' = ''us''"
  by code_simp


text \<open>
  Claim C2. The lookup is to return an empty record, without raising, for every falsy or
  unknown country code. On \<open>undefined\<close> and on \<open>null\<close> the code raises a \<open>TypeError\<close>:
  \<open>countryCode.toLowerCase()\<close> is evaluated before the guard \<open>countryCode && ...\<close>.
\<close>

theorem getCountryMapData_falsy_raises:
  "getCountryMapData boundsOf table Undefined = Inl TypeError \<and>
   getCountryMapData boundsOf table Null = Inl TypeError"
  by (simp add: getCountryMapData_def)


text \<open>
  Claim C3, as stated, fails: the lookup of a known code changes the stored static
  record. Here the stored record of \<open>us\<close> has no bounds before the call and has the
  bounds of \<open>countryBounds\<close> after it.
\<close>

theorem getCountryMapData_mutates_store:
  "getCountryMapData
      [''us'' \<mapsto> \<lparr>minLon = -125, minLat = 24, maxLon = -66, maxLat = 49\<rparr>]
      [''us'' \<mapsto> \<lparr>payload = ''United States'', bounds = None\<rparr>]
      (Str ''US'')
    = Inr (Feature \<lparr>payload = ''United States'',
                    bounds = Some \<lparr>minLon = -125, minLat = 24, maxLon = -66, maxLat = 49\<rparr>\<rparr>,
           [''us'' \<mapsto> \<lparr>payload = ''United States'',
                       bounds = Some \<lparr>minLon = -125, minLat = 24, maxLon = -66, maxLat = 49\<rparr>\<rparr>]) \<and>
   [''us'' \<mapsto> \<lparr>payload = ''United States'',
               bounds = Some \<lparr>minLon = -125, minLat = 24, maxLon = -66, maxLat = 49\<rparr>\<rparr>] ''us''
     \<noteq> [''us'' \<mapsto> \<lparr>payload = ''United States'', bounds = None\<rparr>] ''us''"
  by (simp add: getCountryMapData_known toLowerCase_US)


text \<open>
  Claim C3, amended. A lookup that returns changes no record of the static table other
  than the one stored under the lower-cased code. For a non-empty code found in the
  table it assigns \<open>countryBounds[code]\<close> to the \<open>bounds\<close> field of that stored record,
  and returns that record; its other fields keep their values. For the empty string
  and for a code that is not in the table, the whole table is unchanged.
\<close>

theorem getCountryMapData_frame:
  assumes "getCountryMapData boundsOf table (Str s) = Inr (result, table')"
  shows "(\<forall>k. k \<noteq> toLowerCase s \<longrightarrow> table' k = table k) \<and>
         (case table (toLowerCase s) of
            None \<Rightarrow> result = EmptyRecord \<and> table' = table
          | Some stored \<Rightarrow>
              if s = [] then result = EmptyRecord \<and> table' = table
              else result = Feature (stored\<lparr>bounds := boundsOf (toLowerCase s)\<rparr>) \<and>
                   table' (toLowerCase s) =
                     Some (stored\<lparr>bounds := boundsOf (toLowerCase s)\<rparr>) \<and>
                   payload (stored\<lparr>bounds := boundsOf (toLowerCase s)\<rparr>) = payload stored)"
  using assms
  by (auto simp: getCountryMapData_def truthy_def Let_def split: option.splits if_splits)

theorem getCountryMapData_frame_witness:
  "getCountryMapData
      [''us'' \<mapsto> \<lparr>minLon = -125, minLat = 24, maxLon = -66, maxLat = 49\<rparr>]
      [''us'' \<mapsto> \<lparr>payload = ''United States'', bounds = None\<rparr>,
       ''de'' \<mapsto> \<lparr>payload = ''Germany'', bounds = None\<rparr>]
      (Str ''US'')
    = Inr (Feature \<lparr>payload = ''United States'',
                    bounds = Some \<lparr>minLon = -125, minLat = 24, maxLon = -66, maxLat = 49\<rparr>\<rparr>,
           [''us'' \<mapsto> \<lparr>payload = ''United States'', bounds = None\<rparr>,
            ''de'' \<mapsto> \<lparr>payload = ''Germany'', bounds = None\<rparr>,
            ''us'' \<mapsto> \<lparr>payload = ''United States'',
                       bounds = Some \<lparr>minLon = -125, minLat = 24, maxLon = -66, maxLat = 49\<rparr>\<rparr>]) \<and>
   [''us'' \<mapsto> \<lparr>payload = ''United States'', bounds = None\<rparr>,
    ''de'' \<mapsto> \<lparr>payload = ''Germany'', bounds = None\<rparr>,
    ''us'' \<mapsto> \<lparr>payload = ''United States'',
               bounds = Some \<lparr>minLon = -125, minLat = 24, maxLon = -66, maxLat = 49\<rparr>\<rparr>] ''de''
     = Some \<lparr>payload = ''Germany'', bounds = None\<rparr>"
proof -
  have run: "getCountryMapData
      [''us'' \<mapsto> \<lparr>minLon = -125, minLat = 24, maxLon = -66, maxLat = 49\<rparr>]
      [''us'' \<mapsto> \<lparr>payload = ''United States'', bounds = None\<rparr>,
       ''de'' \<mapsto> \<lparr>payload = ''Germany'', bounds = None\<rparr>]
      (Str ''US'')
    = Inr (Feature \<lparr>payload = ''United States'',
                    bounds = Some \<lparr>minLon = -125, minLat = 24, maxLon = -66, maxLat = 49\<rparr>\<rparr>,
           [''us'' \<mapsto> \<lparr>payload = ''United States'', bounds = None\<rparr>,
            ''de'' \<mapsto> \<lparr>payload = ''Germany'', bounds = None\<rparr>,
            ''us'' \<mapsto> \<lparr>payload = ''United States'',
                       bounds = Some \<lparr>minLon = -125, minLat = 24, maxLon = -66, maxLat = 49\<rparr>\<rparr>])"
    by (simp add: getCountryMapData_known toLowerCase_US)
  show ?thesis
    using run getCountryMapData_frame [OF run] by (simp add: toLowerCase_US)
qed

section \<open>Properties of the geo data transformer\<close>

text \<open>
  The callback never raises on the modelled values, and writes at most the entry of
  \<open>dataMap\<close> under the row's own country.
\<close>

lemma transformItem_total:
  "\<exists>found w1. transformItem boundsOf w item index = Inr (found, w1) \<and>
     dataMap w1 =
       (if truthy (countryOf item)
        then (dataMap w)(template (countryOf item) \<mapsto>
               \<lparr>agg_item = item, agg_index = index,
                agg_sum = foldl (\<lambda>acc dataItem. acc + sample_y dataItem) 0 (row_data item)\<rparr>)
        else dataMap w)"
proof (cases "countryOf item")
  case (Str s)
  then show ?thesis
    by (auto simp: transformItem_def getCountryMapData_def truthy_def Let_def split: option.splits)
qed (simp_all add: transformItem_def truthy_def)

lemma mapItems_keeps:
  assumes "\<forall>item\<in>set rows. countryOf item \<noteq> Str c"
  shows "\<exists>out w1. mapItems boundsOf w index rows = Inr (out, w1) \<and> length out = length rows \<and> dataMap w1 c = dataMap w c"
  using assms
proof (induction rows arbitrary: w index)
  case Nil
  show ?case by simp
next
  case (Cons item rest)
  obtain found w1 where step: "transformItem boundsOf w item index = Inr (found, w1)"
    and dm: "dataMap w1 =
       (if truthy (countryOf item)
        then (dataMap w)(template (countryOf item) \<mapsto>
               \<lparr>agg_item = item, agg_index = index,
                agg_sum = foldl (\<lambda>acc dataItem. acc + sample_y dataItem) 0 (row_data item)\<rparr>)
        else dataMap w)"
    using transformItem_total[of boundsOf w item index] by blast
  from Cons.prems have ne: "countryOf item \<noteq> Str c" by simp
  have keep: "dataMap w1 c = dataMap w c"
    using dm ne by (cases "countryOf item") (auto simp: truthy_def template_def)
  from Cons.prems have "\<forall>item\<in>set rest. countryOf item \<noteq> Str c" by simp
  from Cons.IH[OF this, of w1 "Suc index"]
  obtain out w2 where rest: "mapItems boundsOf w1 (Suc index) rest = Inr (out, w2)"
    "length out = length rest" "dataMap w2 c = dataMap w1 c" by blast
  show ?case using step rest keep by simp
qed


text \<open>
  Claim C1, as stated, fails: \<open>transformData\<close> never resets \<open>dataMap\<close>. A first batch
  with a row for \<open>us\<close>, then a second batch with only a row for \<open>de\<close>, leave the entry of
  \<open>us\<close> in place, so \<open>getDataForCountry\<close> of \<open>us\<close> is not the empty record.
\<close>

theorem transformData_stale_entry:
  "transformData Map.empty (newInstance Map.empty :: (unit, int) world)
     [\<lparr>row_groups = [\<lparr>group_type = ''facet'', group_name = ''country'', group_value = Str ''us''\<rparr>],
       row_data = [\<lparr>sample_x = 0, sample_y = 3\<rparr>, \<lparr>sample_x = 1, sample_y = 4\<rparr>]\<rparr>]
     = Inr ([EmptyRecord],
            \<lparr>dataMap = [''us'' \<mapsto>
               \<lparr>agg_item = \<lparr>row_groups = [\<lparr>group_type = ''facet'', group_name = ''country'', group_value = Str ''us''\<rparr>],
                            row_data = [\<lparr>sample_x = 0, sample_y = 3\<rparr>, \<lparr>sample_x = 1, sample_y = 4\<rparr>]\<rparr>,
                agg_index = 0, agg_sum = 7\<rparr>],
             countryData = Map.empty\<rparr>) \<and>
   transformData Map.empty
     (\<lparr>dataMap = [''us'' \<mapsto>
               \<lparr>agg_item = \<lparr>row_groups = [\<lparr>group_type = ''facet'', group_name = ''country'', group_value = Str ''us''\<rparr>],
                            row_data = [\<lparr>sample_x = 0, sample_y = 3\<rparr>, \<lparr>sample_x = 1, sample_y = 4\<rparr>]\<rparr>,
                agg_index = 0, agg_sum = 7\<rparr>],
       countryData = Map.empty\<rparr> :: (unit, int) world)
     [\<lparr>row_groups = [\<lparr>group_type = ''facet'', group_name = ''country'', group_value = Str ''de''\<rparr>],
       row_data = [\<lparr>sample_x = 0, sample_y = 5\<rparr>]\<rparr>]
     = Inr ([EmptyRecord],
            \<lparr>dataMap = [''us'' \<mapsto>
               \<lparr>agg_item = \<lparr>row_groups = [\<lparr>group_type = ''facet'', group_name = ''country'', group_value = Str ''us''\<rparr>],
                            row_data = [\<lparr>sample_x = 0, sample_y = 3\<rparr>, \<lparr>sample_x = 1, sample_y = 4\<rparr>]\<rparr>,
                agg_index = 0, agg_sum = 7\<rparr>,
               ''de'' \<mapsto>
               \<lparr>agg_item = \<lparr>row_groups = [\<lparr>group_type = ''facet'', group_name = ''country'', group_value = Str ''de''\<rparr>],
                            row_data = [\<lparr>sample_x = 0, sample_y = 5\<rparr>]\<rparr>,
                agg_index = 0, agg_sum = 5\<rparr>],
             countryData = Map.empty\<rparr>) \<and>
   getDataForCountry
     (\<lparr>dataMap = [''us'' \<mapsto>
               \<lparr>agg_item = \<lparr>row_groups = [\<lparr>group_type = ''facet'', group_name = ''country'', group_value = Str ''us''\<rparr>],
                            row_data = [\<lparr>sample_x = 0, sample_y = 3\<rparr>, \<lparr>sample_x = 1, sample_y = 4\<rparr>]\<rparr>,
                agg_index = 0, agg_sum = 7\<rparr>,
               ''de'' \<mapsto>
               \<lparr>agg_item = \<lparr>row_groups = [\<lparr>group_type = ''facet'', group_name = ''country'', group_value = Str ''de''\<rparr>],
                            row_data = [\<lparr>sample_x = 0, sample_y = 5\<rparr>]\<rparr>,
                agg_index = 0, agg_sum = 5\<rparr>],
       countryData = Map.empty\<rparr> :: (unit, int) world) ''us''
     \<noteq> None"
  by (simp add: transformData_def transformItem_def countryOf_def truthy_def template_def
        getCountryMapData_def newInstance_def getDataForCountry_def)


text \<open>
  Claim C1, amended. \<open>transformData\<close> adds to \<open>dataMap\<close> and never removes from it: after
  a call on a batch with no row whose \<open>country\<close> facet is \<open>c\<close>, \<open>getDataForCountry\<close> of
  \<open>c\<close> returns what it returned before the call. It is the empty record only if no
  earlier batch of this instance had a row for \<open>c\<close>.
\<close>

theorem transformData_keeps_absent:
  assumes "\<forall>item\<in>set rows. countryOf item \<noteq> Str c"
  shows "\<exists>out w1. transformData boundsOf w rows = Inr (out, w1) \<and>
           getDataForCountry w1 c = getDataForCountry w c"
  using mapItems_keeps[OF assms, of boundsOf w 0]
  by (auto simp: transformData_def getDataForCountry_def)

theorem transformData_keeps_absent_witness:
  "countryOf (\<lparr>row_groups = [\<lparr>group_type = ''facet'', group_name = ''country'', group_value = Str ''de''\<rparr>],
              row_data = [\<lparr>sample_x = 0, sample_y = 5\<rparr>]\<rparr> :: int sample row) \<noteq> Str ''us'' \<and>
   (\<exists>out w1.
      transformData Map.empty
        (\<lparr>dataMap = [''us'' \<mapsto>
               \<lparr>agg_item = \<lparr>row_groups = [\<lparr>group_type = ''facet'', group_name = ''country'', group_value = Str ''us''\<rparr>],
                            row_data = [\<lparr>sample_x = 0, sample_y = 3\<rparr>]\<rparr>,
                agg_index = 0, agg_sum = 3\<rparr>],
          countryData = Map.empty\<rparr> :: (unit, int) world)
        [\<lparr>row_groups = [\<lparr>group_type = ''facet'', group_name = ''country'', group_value = Str ''de''\<rparr>],
          row_data = [\<lparr>sample_x = 0, sample_y = 5\<rparr>]\<rparr>]
        = Inr (out, w1) \<and>
      getDataForCountry w1 ''us'' =
        Some \<lparr>agg_item = \<lparr>row_groups = [\<lparr>group_type = ''facet'', group_name = ''country'', group_value = Str ''us''\<rparr>],
                          row_data = [\<lparr>sample_x = 0, sample_y = 3\<rparr>]\<rparr>,
              agg_index = 0, agg_sum = 3\<rparr>)"
proof -
  have absent: "\<forall>item\<in>set [\<lparr>row_groups = [\<lparr>group_type = ''facet'', group_name = ''country'', group_value = Str ''de''\<rparr>],
          row_data = [\<lparr>sample_x = 0, sample_y = (5::int)\<rparr>]\<rparr>]. countryOf item \<noteq> Str ''us''"
    by (simp add: countryOf_def)
  show ?thesis
    using absent transformData_keeps_absent [OF absent, of Map.empty
        "\<lparr>dataMap = [''us'' \<mapsto>
               \<lparr>agg_item = \<lparr>row_groups = [\<lparr>group_type = ''facet'', group_name = ''country'', group_value = Str ''us''\<rparr>],
                            row_data = [\<lparr>sample_x = 0, sample_y = 3\<rparr>]\<rparr>,
                agg_index = 0, agg_sum = 3\<rparr>],
          countryData = Map.empty\<rparr> :: (unit, int) world"]
    by (simp add: getDataForCountry_def)
qed


section \<open>Properties of the flow graph transformer, facet mode\<close>

text \<open>
  On rows with two facet groups and a sample, each step of the loop appends one link and
  adds the two node identities to the set.
\<close>

lemma setAdd_set: "set (setAdd s v) = insert v (set s)"
  by (auto simp: setAdd_def)

lemma setAdd_distinct: "distinct s \<Longrightarrow> distinct (setAdd s v)"
  by (simp add: setAdd_def)

lemma facetStep_wellformed:
  assumes "2 \<le> length (facetsOf item)" and "row_data item \<noteq> []"
  shows "facetStep acc item =
           Inr (setAdd (setAdd (fst acc) (facetId (facetsOf item ! 0))) (facetId (facetsOf item ! 1)),
                snd acc @ [\<lparr>link_source = facetId (facetsOf item ! 0),
                            link_target = facetId (facetsOf item ! 1),
                            link_value = sample_y (row_data item ! 0)\<rparr>])"
proof -
  obtain f0 f1 fs where fs: "facetsOf item = f0 # f1 # fs"
  proof (cases "facetsOf item")
    case Nil
    with assms(1) show ?thesis by simp
  next
    case outer: (Cons a as)
    show ?thesis
    proof (cases as)
      case Nil
      with outer assms(1) show ?thesis by simp
    next
      case (Cons b bs)
      with outer that show ?thesis by simp
    qed
  qed
  obtain d ds where ds: "row_data item = d # ds"
    using assms(2) by (cases "row_data item") auto
  show ?thesis by (simp add: facetStep_def fs ds Let_def)
qed

lemma facetLoop_wellformed:
  assumes "\<forall>item\<in>set rows. 2 \<le> length (facetsOf item) \<and> row_data item \<noteq> []"
    and "distinct (fst acc)"
  shows "\<exists>ns. facetLoop acc rows =
           Inr (ns, snd acc @ map (\<lambda>item. \<lparr>link_source = facetId (facetsOf item ! 0),
                                           link_target = facetId (facetsOf item ! 1),
                                           link_value = sample_y (row_data item ! 0)\<rparr>) rows) \<and>
         distinct ns \<and>
         set ns = set (fst acc) \<union>
                  (\<Union>item\<in>set rows. {facetId (facetsOf item ! 0), facetId (facetsOf item ! 1)})"
  using assms
proof (induction rows arbitrary: acc)
  case Nil
  show ?case using Nil.prems by (cases acc) simp
next
  case (Cons item rest)
  let ?acc1 = "(setAdd (setAdd (fst acc) (facetId (facetsOf item ! 0))) (facetId (facetsOf item ! 1)),
                snd acc @ [\<lparr>link_source = facetId (facetsOf item ! 0),
                            link_target = facetId (facetsOf item ! 1),
                            link_value = sample_y (row_data item ! 0)\<rparr>])"
  have step: "facetStep acc item = Inr ?acc1"
    using Cons.prems(1) by (simp add: facetStep_wellformed)
  have d1: "distinct (fst ?acc1)"
    using Cons.prems(2) by (simp add: setAdd_distinct)
  have wf: "\<forall>item\<in>set rest. 2 \<le> length (facetsOf item) \<and> row_data item \<noteq> []"
    using Cons.prems(1) by simp
  from Cons.IH[OF wf d1] obtain ns where
    ns: "facetLoop ?acc1 rest =
           Inr (ns, snd ?acc1 @ map (\<lambda>item. \<lparr>link_source = facetId (facetsOf item ! 0),
                                           link_target = facetId (facetsOf item ! 1),
                                           link_value = sample_y (row_data item ! 0)\<rparr>) rest)"
    "distinct ns"
    "set ns = set (fst ?acc1) \<union>
                  (\<Union>item\<in>set rest. {facetId (facetsOf item ! 0), facetId (facetsOf item ! 1)})"
    by blast
  have "facetLoop acc (item # rest) =
          Inr (ns, snd acc @ map (\<lambda>item. \<lparr>link_source = facetId (facetsOf item ! 0),
                                           link_target = facetId (facetsOf item ! 1),
                                           link_value = sample_y (row_data item ! 0)\<rparr>) (item # rest))"
    using step ns(1) by simp
  moreover have "set ns = set (fst acc) \<union>
                  (\<Union>item\<in>set (item # rest). {facetId (facetsOf item ! 0), facetId (facetsOf item ! 1)})"
    using ns(3) by (auto simp: setAdd_set)
  ultimately show ?case using ns(2) by blast
qed


text \<open>
  Claim C5. In facet mode, on a batch whose rows each have at least two facet groups and
  a sample (the code raises a \<open>TypeError\<close> otherwise), the transform returns a graph
  whose links are, in order, one link per row, from the identity of the row's first
  facet to that of its second, with the value \<open>data[0].y\<close> of that row; rows are never
  merged, so rows with the same facet pair give parallel links. The node ids are pairwise
  distinct and are exactly the identity strings of the rows' two facets.
\<close>

theorem transformFacetData_links_nodes:
  assumes "\<forall>item\<in>set rawData. 2 \<le> length (facetsOf item) \<and> row_data item \<noteq> []"
  shows "\<exists>g. transformFacetData rawData = Inr g \<and>
           links g = map (\<lambda>item. \<lparr>link_source = facetId (facetsOf item ! 0),
                                   link_target = facetId (facetsOf item ! 1),
                                   link_value = sample_y (row_data item ! 0)\<rparr>) rawData \<and>
           distinct (map node_id (nodes g)) \<and>
           set (map node_id (nodes g)) =
             (\<Union>item\<in>set rawData. {facetId (facetsOf item ! 0), facetId (facetsOf item ! 1)})"
proof -
  from facetLoop_wellformed[OF assms, of "([], [])"] obtain ns where
    ns: "facetLoop ([], []) rawData =
           Inr (ns, map (\<lambda>item. \<lparr>link_source = facetId (facetsOf item ! 0),
                                  link_target = facetId (facetsOf item ! 1),
                                  link_value = sample_y (row_data item ! 0)\<rparr>) rawData)"
    "distinct ns"
    "set ns = (\<Union>item\<in>set rawData. {facetId (facetsOf item ! 0), facetId (facetsOf item ! 1)})"
    by auto
  have ids: "map node_id (map (\<lambda>node. \<lparr>node_id = node, node_name = beforeBars node\<rparr>) ns) = ns"
    by (induction ns) simp_all
  let ?g = "\<lparr>nodes = map (\<lambda>node. \<lparr>node_id = node, node_name = beforeBars node\<rparr>) ns,
             links = map (\<lambda>item. \<lparr>link_source = facetId (facetsOf item ! 0),
                                     link_target = facetId (facetsOf item ! 1),
                                     link_value = sample_y (row_data item ! 0)\<rparr>) rawData\<rparr>"
  have "transformFacetData rawData = Inr ?g"
    using ns(1) by (simp add: transformFacetData_def)
  moreover have "map node_id (nodes ?g) = ns"
    using ids by simp
  ultimately show ?thesis
    using ns(2,3) by (intro exI[of _ ?g]) (simp del: map_map)
qed

theorem transformFacetData_links_nodes_witness:
  "2 \<le> length (facetsOf (\<lparr>row_groups = [\<lparr>group_type = ''facet'', group_name = ''ip_address'', group_value = Str ''10.0.0.1''\<rparr>,
                                         \<lparr>group_type = ''facet'', group_name = ''country'', group_value = Str ''US''\<rparr>],
                           row_data = [\<lparr>sample_x = 0, sample_y = 7\<rparr>]\<rparr> :: int sample row)) \<and>
   transformFacetData
     [\<lparr>row_groups = [\<lparr>group_type = ''facet'', group_name = ''ip_address'', group_value = Str ''10.0.0.1''\<rparr>,
                     \<lparr>group_type = ''facet'', group_name = ''country'', group_value = Str ''US''\<rparr>],
       row_data = [\<lparr>sample_x = 0, sample_y = 7\<rparr>]\<rparr>,
      \<lparr>row_groups = [\<lparr>group_type = ''facet'', group_name = ''ip_address'', group_value = Str ''10.0.0.1''\<rparr>,
                     \<lparr>group_type = ''facet'', group_name = ''country'', group_value = Str ''US''\<rparr>],
       row_data = [\<lparr>sample_x = 0, sample_y = 9\<rparr>]\<rparr>]
   = Inr \<lparr>nodes = [\<lparr>node_id = ''10.0.0.1||ip_address'', node_name = ''10.0.0.1''\<rparr>,
                   \<lparr>node_id = ''US||country'', node_name = ''US''\<rparr>],
          links = [\<lparr>link_source = ''10.0.0.1||ip_address'', link_target = ''US||country'', link_value = 7::int\<rparr>,
                   \<lparr>link_source = ''10.0.0.1||ip_address'', link_target = ''US||country'', link_value = 9\<rparr>]\<rparr>"
  using transformFacetData_links_nodes [of
     "[\<lparr>row_groups = [\<lparr>group_type = ''facet'', group_name = ''ip_address'', group_value = Str ''10.0.0.1''\<rparr>,
                     \<lparr>group_type = ''facet'', group_name = ''country'', group_value = Str ''US''\<rparr>],
       row_data = [\<lparr>sample_x = 0, sample_y = 7\<rparr>]\<rparr>,
      \<lparr>row_groups = [\<lparr>group_type = ''facet'', group_name = ''ip_address'', group_value = Str ''10.0.0.1''\<rparr>,
                     \<lparr>group_type = ''facet'', group_name = ''country'', group_value = Str ''US''\<rparr>],
       row_data = [\<lparr>sample_x = 0, sample_y = 9::int\<rparr>]\<rparr>]"]
  by (simp add: transformFacetData_def facetStep_def facetsOf_def facetId_def template_def setAdd_def Let_def)


section \<open>Properties of the flow graph transformer, event mode\<close>

text \<open>
  The \<open>links\<close> object after the loop: its keys are distinct, and the entry under a key is
  created by the first event with that key and holds the amounts of all events with
  that key, added in their order to 0. The \<open>nodes\<close> object holds one node under each
  left and each right key.
\<close>

lemma eventObjects_snoc:
  "eventObjects dl dr (events @ [item]) = eventStep dl dr (eventObjects dl dr events) item"
  by (simp add: eventObjects_def)

lemma orAssign_distinct: "distinct (map fst obj) \<Longrightarrow> distinct (map fst (orAssign k v obj))"
  by (simp add: orAssign_def)

lemma map_of_snoc:
  "map_of (obj @ [(k, v)]) k' =
     (case map_of obj k' of Some u \<Rightarrow> Some u | None \<Rightarrow> if k' = k then Some v else None)"
  by (induction obj) auto

lemma orAssign_map_of:
  "map_of (orAssign k v obj) k' =
     (case map_of obj k' of Some u \<Rightarrow> Some u | None \<Rightarrow> if k' = k then Some v else None)"
proof (cases "k \<in> fst ` set obj")
  case True
  then have "map_of obj k \<noteq> None" by (simp add: map_of_eq_None_iff)
  with True show ?thesis by (auto simp: orAssign_def split: option.splits)
next
  case False
  then show ?thesis by (simp add: orAssign_def map_of_snoc del: map_of_append)
qed

lemma addValue_keys: "map fst (addValue k amount obj) = map fst obj"
  by (induction obj) (auto simp: addValue_def)

lemma addValue_map_of:
  "map_of (addValue k amount obj) k' =
     (if k' = k then map_option (\<lambda>l. l\<lparr>link_value := link_value l + amount\<rparr>) (map_of obj k')
      else map_of obj k')"
  by (induction obj) (auto simp: addValue_def)

lemma find_snoc:
  "find P (xs @ [x]) = (case find P xs of Some y \<Rightarrow> Some y | None \<Rightarrow> if P x then Some x else None)"
  by (induction xs) auto

lemma eventLinks_distinct: "distinct (map fst (snd (eventObjects dl dr events)))"
proof (induction events rule: rev_induct)
  case Nil
  show ?case by (simp add: eventObjects_def)
next
  case (snoc item events)
  then show ?case
    by (simp add: eventObjects_snoc eventStep_def Let_def addValue_keys orAssign_distinct)
qed

lemma eventLinks_map_of:
  "map_of (snd (eventObjects dl dr events)) k =
     (case find (\<lambda>e. linkKey dl dr e = k) events of
        None \<Rightarrow> None
      | Some e0 \<Rightarrow>
          Some \<lparr>link_source = leftKey dl e0, link_target = rightKey dr e0,
                link_value = foldl (\<lambda>acc e. acc + in_bytes e * sample_rate e) 0
                               (filter (\<lambda>e. linkKey dl dr e = k) events)\<rparr>)"
proof (induction events rule: rev_induct)
  case Nil
  show ?case by (simp add: eventObjects_def)
next
  case (snoc item events)
  let ?P = "\<lambda>e. linkKey dl dr e = k"
  show ?case
  proof (cases "find ?P events")
    case None
    then have "filter ?P events = []"
      by (auto simp: find_None_iff filter_empty_conv)
    with None snoc.IH show ?thesis
      by (auto simp: eventObjects_snoc eventStep_def Let_def addValue_map_of orAssign_map_of
            find_snoc)
  next
    case (Some e0)
    with snoc.IH show ?thesis
      by (auto simp: eventObjects_snoc eventStep_def Let_def addValue_map_of orAssign_map_of
            find_snoc)
  qed
qed

lemma eventNodes_inv:
  "distinct (map fst (fst (eventObjects dl dr events))) \<and>
   (\<forall>p\<in>set (fst (eventObjects dl dr events)). node_id (snd p) = fst p) \<and>
   fst ` set (fst (eventObjects dl dr events)) = leftKey dl ` set events \<union> rightKey dr ` set events"
proof (induction events rule: rev_induct)
  case Nil
  show ?case by (simp add: eventObjects_def)
next
  case (snoc item events)
  then show ?case
    by (auto simp: eventObjects_snoc eventStep_def Let_def orAssign_def)
qed

lemma left_not_right: "a @ ''-left'' \<noteq> b @ ''-right''"
proof
  assume "a @ ''-left'' = b @ ''-right''"
  then have "rev (a @ ''-left'') = rev (b @ ''-right'')" by simp
  then show False by simp
qed

lemma filter_key_single:
  "distinct (map fst obj) \<Longrightarrow> map_of obj k = Some v \<Longrightarrow> filter (\<lambda>p. fst p = k) obj = [(k, v)]"
proof (induction obj)
  case Nil
  then show ?case by simp
next
  case (Cons p obj)
  show ?case
  proof (cases "fst p = k")
    case True
    with Cons.prems have "p = (k, v)" by (cases p) simp
    moreover have "fst p \<notin> fst ` set obj"
      using Cons.prems(1) by simp
    then have "\<forall>q\<in>set obj. fst q \<noteq> k"
      using True by (auto simp: image_iff)
    then have "filter (\<lambda>p. fst p = k) obj = []"
      by (simp add: filter_empty_conv)
    ultimately show ?thesis by simp
  next
    case False
    with Cons show ?thesis by (cases p) auto
  qed
qed

lemma eventLinks_entry:
  assumes "p \<in> set (snd (eventObjects dl dr events))"
  shows "\<exists>e0\<in>set events. linkKey dl dr e0 = fst p \<and>
           link_source (snd p) = leftKey dl e0 \<and> link_target (snd p) = rightKey dr e0"
proof -
  have "map_of (snd (eventObjects dl dr events)) (fst p) = Some (snd p)"
    using assms by (intro map_of_is_SomeI[OF eventLinks_distinct]) simp
  then obtain e0 where e0: "find (\<lambda>e. linkKey dl dr e = fst p) events = Some e0"
    and l: "snd p = \<lparr>link_source = leftKey dl e0, link_target = rightKey dr e0,
                link_value = foldl (\<lambda>acc e. acc + in_bytes e * sample_rate e) 0
                               (filter (\<lambda>e. linkKey dl dr e = fst p) events)\<rparr>"
    by (auto simp: eventLinks_map_of split: option.splits)
  from e0 have "e0 \<in> set events" "linkKey dl dr e0 = fst p"
    by (auto simp: find_Some_iff)
  with l show ?thesis by auto
qed

lemma leftKey_not_rightKey: "leftKey dl e \<noteq> rightKey dr e'"
  by (simp add: leftKey_def rightKey_def left_not_right)

text \<open>
  Claim C9. In event mode no left node id (\<open>...-left\<close>) equals a right node id
  (\<open>...-right\<close>), whatever the two values are. In the graph returned for a batch, the
  node ids are pairwise distinct and every event has its left node and its right node
  among them, so a left endpoint and a right endpoint are never one node.
\<close>

theorem transformEventData_sides_disjoint:
  "(\<forall>e e'. leftKey dl e \<noteq> rightKey dr e') \<and>
   (\<exists>g. transformEventData dl dr (first # rest) = Inr g \<and>
        distinct (map node_id (nodes g)) \<and>
        (\<forall>e\<in>set (row_data first). \<forall>e'\<in>set (row_data first).
           leftKey dl e \<in> set (map node_id (nodes g)) \<and>
           rightKey dr e' \<in> set (map node_id (nodes g)) \<and>
           leftKey dl e \<noteq> rightKey dr e'))"
proof -
  let ?N = "fst (eventObjects dl dr (row_data first))"
  have ids: "map node_id (map snd ?N) = map fst ?N"
    using eventNodes_inv[of dl dr "row_data first"] by simp
  have keys: "set (map fst ?N) = leftKey dl ` set (row_data first) \<union> rightKey dr ` set (row_data first)"
    using eventNodes_inv[of dl dr "row_data first"] by simp
  have "distinct (map node_id (map snd ?N))"
    unfolding ids using eventNodes_inv[of dl dr "row_data first"] by blast
  moreover have "leftKey dl e \<in> set (map node_id (map snd ?N))"
    "rightKey dr e \<in> set (map node_id (map snd ?N))" if "e \<in> set (row_data first)" for e
    using that keys unfolding ids by auto
  ultimately show ?thesis
    by (simp add: transformEventData_def Let_def leftKey_not_rightKey del: map_map)
qed

theorem transformEventData_sides_disjoint_witness:
  "\<exists>g. transformEventData ''src_geo'' ''dst_geo''
          [\<lparr>row_groups = [],
            row_data = [\<lparr>event_fields = [(''src_geo'', Str ''US''), (''dst_geo'', Str ''US'')],
                         in_bytes = 10 :: int, sample_rate = 2\<rparr>]\<rparr>] = Inr g \<and>
        distinct (map node_id (nodes g)) \<and>
        ''US-left'' \<in> set (map node_id (nodes g)) \<and>
        ''US-right'' \<in> set (map node_id (nodes g)) \<and>
        length (nodes g) = 2"
  using transformEventData_sides_disjoint [of "''src_geo''" "''dst_geo''"
      "\<lparr>row_groups = [],
        row_data = [\<lparr>event_fields = [(''src_geo'', Str ''US''), (''dst_geo'', Str ''US'')],
                     in_bytes = 10 :: int, sample_rate = 2\<rparr>]\<rparr>" "[]"]
  by (simp add: transformEventData_def eventObjects_def eventStep_def leftKey_def rightKey_def
        linkKey_def getField_def template_def nameOr_def truthy_def orAssign_def addValue_def
        Let_def)

text \<open>
  Claim C10. The link key is the two values joined by a dash, so the pairs
  \<open>(a, b-c)\<close> and \<open>(a-b, c)\<close> have the same key \<open>a-b-c\<close>: the graph has one link, with the
  source and target of the first row and the amounts of both rows added up.
\<close>

theorem transformEventData_key_collision:
  "transformEventData ''src'' ''dst''
     [\<lparr>row_groups = [],
       row_data = [\<lparr>event_fields = [(''src'', Str ''a''), (''dst'', Str ''b-c'')],
                    in_bytes = b1, sample_rate = r1\<rparr>,
                   \<lparr>event_fields = [(''src'', Str ''a-b''), (''dst'', Str ''c'')],
                    in_bytes = b2, sample_rate = r2\<rparr>]\<rparr>]
   = Inr \<lparr>nodes = [\<lparr>node_id = ''a-left'', node_name = ''a''\<rparr>,
                   \<lparr>node_id = ''b-c-right'', node_name = ''b-c''\<rparr>,
                   \<lparr>node_id = ''a-b-left'', node_name = ''a-b''\<rparr>,
                   \<lparr>node_id = ''c-right'', node_name = ''c''\<rparr>],
          links = [\<lparr>link_source = ''a-left'', link_target = ''b-c-right'',
                    link_value = 0 + b1 * r1 + b2 * r2\<rparr>]\<rparr>"
  by (simp add: transformEventData_def eventObjects_def eventStep_def leftKey_def rightKey_def
        linkKey_def getField_def template_def nameOr_def truthy_def orAssign_def addValue_def
        Let_def)

text \<open>
  Claim C4, as stated, fails on a batch where two different pairs have the same key:
  the only link has the value 30, while the rows with the pair \<open>(a, b-c)\<close> add up to 10.
\<close>

theorem transformEventData_collision_sum:
  "transformEventData ''src'' ''dst''
     [\<lparr>row_groups = [],
       row_data = [\<lparr>event_fields = [(''src'', Str ''a''), (''dst'', Str ''b-c'')],
                    in_bytes = 10 :: int, sample_rate = 1\<rparr>,
                   \<lparr>event_fields = [(''src'', Str ''a-b''), (''dst'', Str ''c'')],
                    in_bytes = 20, sample_rate = 1\<rparr>]\<rparr>]
   = Inr \<lparr>nodes = [\<lparr>node_id = ''a-left'', node_name = ''a''\<rparr>,
                   \<lparr>node_id = ''b-c-right'', node_name = ''b-c''\<rparr>,
                   \<lparr>node_id = ''a-b-left'', node_name = ''a-b''\<rparr>,
                   \<lparr>node_id = ''c-right'', node_name = ''c''\<rparr>],
          links = [\<lparr>link_source = ''a-left'', link_target = ''b-c-right'', link_value = 30\<rparr>]\<rparr> \<and>
   foldl (\<lambda>acc e. acc + in_bytes e * sample_rate e) 0
     (filter (\<lambda>e. getField e ''src'' = Str ''a'' \<and> getField e ''dst'' = Str ''b-c'')
        [\<lparr>event_fields = [(''src'', Str ''a''), (''dst'', Str ''b-c'')],
          in_bytes = 10 :: int, sample_rate = 1\<rparr>,
         \<lparr>event_fields = [(''src'', Str ''a-b''), (''dst'', Str ''c'')],
          in_bytes = 20, sample_rate = 1\<rparr>]) = 10 \<and>
   (30 :: int) \<noteq> 10"
  by (simp add: transformEventData_def eventObjects_def eventStep_def leftKey_def rightKey_def
        linkKey_def getField_def template_def nameOr_def truthy_def orAssign_def addValue_def
        Let_def)

text \<open>
  Claim C4, amended. In event mode, for an event of the batch whose link key is shared
  only by events with the same pair of dimension values, the graph has exactly one link
  from the left node to the right node of that pair, and its value is the sum, added in
  row order to 0, of \<open>in_bytes * sample_rate\<close> over all events with that pair.
\<close>

theorem transformEventData_merges_pair:
  assumes "e \<in> set (row_data first)"
    and "\<forall>e'\<in>set (row_data first).
           linkKey dl dr e' = linkKey dl dr e \<longrightarrow>
           getField e' dl = getField e dl \<and> getField e' dr = getField e dr"
  shows "\<exists>g. transformEventData dl dr (first # rest) = Inr g \<and>
           filter (\<lambda>l. link_source l = leftKey dl e \<and> link_target l = rightKey dr e) (links g) =
             [\<lparr>link_source = leftKey dl e, link_target = rightKey dr e,
               link_value =
                 foldl (\<lambda>acc e'. acc + in_bytes e' * sample_rate e') 0
                   (filter (\<lambda>e'. getField e' dl = getField e dl \<and> getField e' dr = getField e dr)
                      (row_data first))\<rparr>]"
proof -
  let ?events = "row_data first"
  let ?L = "snd (eventObjects dl dr ?events)"
  let ?k = "linkKey dl dr e"
  let ?same = "\<lambda>e'. getField e' dl = getField e dl \<and> getField e' dr = getField e dr"
  have byKey: "(link_source (snd p) = leftKey dl e \<and> link_target (snd p) = rightKey dr e)
                 \<longleftrightarrow> fst p = ?k" if "p \<in> set ?L" for p
  proof -
    from eventLinks_entry[OF that] obtain e0 where e0: "e0 \<in> set ?events"
      "linkKey dl dr e0 = fst p" "link_source (snd p) = leftKey dl e0"
      "link_target (snd p) = rightKey dr e0" by blast
    show ?thesis
    proof
      assume "link_source (snd p) = leftKey dl e \<and> link_target (snd p) = rightKey dr e"
      with e0 have "template (getField e0 dl) = template (getField e dl)"
        "template (getField e0 dr) = template (getField e dr)"
        by (simp_all add: leftKey_def rightKey_def)
      with e0(2) show "fst p = ?k" by (simp add: linkKey_def)
    next
      assume "fst p = ?k"
      with e0 assms(2) have "?same e0" by simp
      with e0 show "link_source (snd p) = leftKey dl e \<and> link_target (snd p) = rightKey dr e"
        by (simp add: leftKey_def rightKey_def)
    qed
  qed
  have sameKey: "linkKey dl dr e' = ?k \<longleftrightarrow> ?same e'" if "e' \<in> set ?events" for e'
    using that assms(2) by (auto simp: linkKey_def)
  obtain e0 where find: "find (\<lambda>e'. linkKey dl dr e' = ?k) ?events = Some e0"
    using assms(1) by (cases "find (\<lambda>e'. linkKey dl dr e' = ?k) ?events") (auto simp: find_None_iff)
  then have "e0 \<in> set ?events" "linkKey dl dr e0 = ?k"
    by (auto simp: find_Some_iff)
  with assms(2) have same0: "?same e0" by simp
  have filt: "filter (\<lambda>e'. linkKey dl dr e' = ?k) ?events = filter ?same ?events"
    by (rule filter_cong) (simp_all add: sameKey)
  let ?v = "\<lparr>link_source = leftKey dl e, link_target = rightKey dr e,
             link_value = foldl (\<lambda>acc e'. acc + in_bytes e' * sample_rate e') 0
                            (filter ?same ?events)\<rparr>"
  have "map_of ?L ?k = Some ?v"
    using find same0 filt by (simp add: eventLinks_map_of leftKey_def rightKey_def)
  then have single: "filter (\<lambda>p. fst p = ?k) ?L = [(?k, ?v)]"
    by (rule filter_key_single[OF eventLinks_distinct])
  have "filter (\<lambda>l. link_source l = leftKey dl e \<and> link_target l = rightKey dr e) (map snd ?L)
          = map snd (filter (\<lambda>p. link_source (snd p) = leftKey dl e \<and>
                                  link_target (snd p) = rightKey dr e) ?L)"
    by (simp add: filter_map comp_def)
  also have "\<dots> = map snd (filter (\<lambda>p. fst p = ?k) ?L)"
    using byKey by (simp cong: filter_cong)
  also have "\<dots> = [?v]" by (simp add: single)
  finally show ?thesis
    by (simp add: transformEventData_def Let_def)
qed

theorem transformEventData_merges_pair_witness:
  "\<exists>g. transformEventData ''src_geo'' ''dst_geo''
          [\<lparr>row_groups = [],
            row_data = [\<lparr>event_fields = [(''src_geo'', Str ''US''), (''dst_geo'', Str ''DE'')],
                         in_bytes = 10, sample_rate = 2\<rparr>,
                        \<lparr>event_fields = [(''src_geo'', Str ''US''), (''dst_geo'', Str ''FR'')],
                         in_bytes = 5, sample_rate = 1\<rparr>,
                        \<lparr>event_fields = [(''src_geo'', Str ''US''), (''dst_geo'', Str ''DE'')],
                         in_bytes = 3, sample_rate = 4\<rparr>]\<rparr>] = Inr g \<and>
        filter (\<lambda>l. link_source l = ''US-left'' \<and> link_target l = ''DE-right'') (links g) =
          [\<lparr>link_source = ''US-left'', link_target = ''DE-right'', link_value = 32 :: int\<rparr>]"
proof -
  let ?e = "\<lparr>event_fields = [(''src_geo'', Str ''US''), (''dst_geo'', Str ''DE'')],
             in_bytes = 10 :: int, sample_rate = 2\<rparr>"
  let ?first = "\<lparr>row_groups = [],
            row_data = [?e,
                        \<lparr>event_fields = [(''src_geo'', Str ''US''), (''dst_geo'', Str ''FR'')],
                         in_bytes = 5, sample_rate = 1\<rparr>,
                        \<lparr>event_fields = [(''src_geo'', Str ''US''), (''dst_geo'', Str ''DE'')],
                         in_bytes = 3, sample_rate = 4\<rparr>]\<rparr>"
  have mem: "?e \<in> set (row_data ?first)" by simp
  have apart: "\<forall>e'\<in>set (row_data ?first).
           linkKey ''src_geo'' ''dst_geo'' e' = linkKey ''src_geo'' ''dst_geo'' ?e \<longrightarrow>
           getField e' ''src_geo'' = getField ?e ''src_geo'' \<and>
           getField e' ''dst_geo'' = getField ?e ''dst_geo''"
    by (simp add: linkKey_def getField_def template_def)
  show ?thesis
    using transformEventData_merges_pair [OF mem apart, of "[]"]
    by (simp add: leftKey_def rightKey_def getField_def template_def)
qed


section \<open>Properties of the magnitude scaler\<close>

text \<open>
  For a single value the standard deviation is 0, so the estimate that selects the
  prefix is the value itself; in exact arithmetic the prefix is the first of P, T, G,
  M, K whose quotient is greater than the limit.
\<close>

lemma calculateStdDeviation_single: "calculateStdDeviation [Some (Num v)] = (Num v, Num 0)"
  by (simp add: calculateStdDeviation_def jsDiv_def jsAdd_def jsSub_def jsMul_def jsSqrt_def)

lemma nStdDeviations_single: "nStdDeviations [Some (Num v)] n = Num v"
  by (simp add: nStdDeviations_def calculateStdDeviation_single jsAdd_def jsMul_def)

lemma greekPrefix_single:
  "greekPrefix [Some (Num v)] scaleMax =
     (let limit = (case scaleMax of None \<Rightarrow> 5 | Some m \<Rightarrow> m) in
      if v / 10 ^ 15 > limit then ''P''
      else if v / 10 ^ 12 > limit then ''T''
      else if v / 10 ^ 9 > limit then ''G''
      else if v / 10 ^ 6 > limit then ''M''
      else if v / 10 ^ 3 > limit then ''K''
      else [])"
  by (simp add: greekPrefix_def nStdDeviations_single PREFIXES_def jsGreater_def jsDiv_def
        Let_def)


text \<open>
  Claim C6. The prefixes are tried from the largest magnitude down, and a prefix
  qualifies only when the quotient is strictly greater than \<open>scaleMax\<close> (5 by default):
  \<open>formatBytesGreek(1500000, "B")\<close> skips M (1.5 is not above 5), selects K (1500 is) and
  returns \<open>1500 KB\<close>. A quotient of exactly 5 does not qualify (5000 has no prefix and
  5000000 gets K), and a value that qualifies under both M and K gets M. On these
  inputs the quotients that decide are exact in IEEE doubles as well.
\<close>

theorem formatBytesGreek_threshold:
  "formatBytesGreek (Single (Some (Num 1500000))) (Some ''B'') None = Some ''1500 KB'' \<and>
   greekPrefix [Some (Num 1500000)] None = ''K'' \<and>
   greekPrefix [Some (Num 5000)] None = [] \<and>
   greekPrefix [Some (Num 5000000)] None = ''K'' \<and>
   greekPrefix [Some (Num 6000000)] None = ''M''"
proof (intro conjI)
  show "greekPrefix [Some (Num 1500000)] None = ''K''"
    by (simp add: greekPrefix_single)
  then show "formatBytesGreek (Single (Some (Num 1500000))) (Some ''B'') None = Some ''1500 KB''"
    by (simp add: formatBytesGreek_def adjustByGreekPrefix_def PREFIXES_def jsDiv_def
          parseFloat_def toFixed_def)
  show "greekPrefix [Some (Num 5000)] None = []"
    by (simp add: greekPrefix_single)
  show "greekPrefix [Some (Num 5000000)] None = ''K''"
    by (simp add: greekPrefix_single)
  show "greekPrefix [Some (Num 6000000)] None = ''M''"
    by (simp add: greekPrefix_single)
qed

end
